theory Spec2Isabelle
  imports Main "HOL-Library.Word" "HOL-Library.Multiset"
begin

section \<open>The workflow accessors of libVeles (src/libVeles/src/workflow.cc)\<close>

text \<open>
  The file defines three member functions of \<^verbatim>\<open>Veles::Workflow\<close>:
  \<^verbatim>\<open>GetUnit\<close>, \<^verbatim>\<open>MaxUnitSize\<close> and \<^verbatim>\<open>mallocf\<close> (the spec calls the last one
  AllocateAlignedFloatBuffer). The classes themselves are declared in
  \<^verbatim>\<open>inc/veles/workflow.h\<close>, which is not part of the sources at hand.
\<close>

subsection \<open>Data\<close>

text \<open>
  \<^verbatim>\<open>size_t\<close> and pointers are 64-bit unsigned machine words (the code calls
  \<^verbatim>\<open>posix_memalign\<close>, so an LP64 POSIX target is taken); \<open>*\<close> on them wraps
  around and \<open><\<close> is the unsigned order. \<^verbatim>\<open>sizeof(float)\<close> is 4.
\<close>

type_synonym size_t = "64 word"
type_synonym addr = "64 word"

definition nullptr :: addr where
  "nullptr = 0"

definition sizeof_float :: size_t where
  "sizeof_float = 4"

text \<open>
  A \<^verbatim>\<open>Unit\<close> is used through \<^verbatim>\<open>InputCount()\<close> and \<^verbatim>\<open>OutputCount()\<close> only, both
  returning \<^verbatim>\<open>size_t\<close>. A \<^verbatim>\<open>std::shared_ptr<Unit>\<close> is a handle: the address of the
  unit it owns. The units live in an object store that maps a handle to the unit's
  attributes; every handle kept in a workflow owns a live unit (a null handle is outside
  the model, as it is outside the spec's data model).
\<close>

record Unit =
  InputCount :: size_t
  OutputCount :: size_t

type_synonym Unit_ptr = nat

text \<open>
  The only data member the three functions read: \<^verbatim>\<open>units_\<close>, a vector of handles
  (the field is \<open>units\<close> here: a name cannot end with an underscore).
\<close>

record Workflow =
  units :: "Unit_ptr list"

text \<open>
  The state a call runs in: the workflow object itself, the store of unit objects and the
  C library's heap, seen as the map from the address of each allocated block to the
  number of usable bytes of the block.
\<close>

record process =
  workflow :: Workflow
  objects :: "Unit_ptr \<Rightarrow> Unit"
  heap :: "addr \<Rightarrow> nat option"

text \<open>
  The one exception the file throws, \<^verbatim>\<open>std::out_of_range\<close> with its message. A call
  yields either an exception (\<open>Inl\<close>) or a value (\<open>Inr\<close>), together with the state
  it leaves behind.
\<close>

datatype exn = out_of_range string

type_synonym 'a outcome = "exn + 'a"

subsection \<open>UnitCount\<close>

text \<open>
  Modelled from the spec: \<^verbatim>\<open>Workflow::UnitCount()\<close> is defined in
  \<^verbatim>\<open>inc/veles/workflow.h\<close>, which is missing; the spec says that it equals the length
  of the unit sequence at all times. The size of a vector always fits \<^verbatim>\<open>size_t\<close>, so
  the count is kept as a natural number and compared with the value of an index.
\<close>

definition UnitCount :: "Workflow \<Rightarrow> nat" where
  "UnitCount w = length (units w)"

subsection \<open>GetUnit\<close>

text \<open>
  \<^verbatim>\<open>
  std::shared_ptr<Unit> Workflow::GetUnit(size_t index) const {
    if (index >= UnitCount()) {
      throw std::out_of_range("index");
    }
    return units_[index];
  }
  \<close>
\<close>

definition GetUnit :: "size_t \<Rightarrow> process \<Rightarrow> Unit_ptr outcome \<times> process" where
  "GetUnit index \<sigma> =
     (if unat index \<ge> UnitCount (workflow \<sigma>)
      then (Inl (out_of_range ''index''), \<sigma>)
      else (Inr (units (workflow \<sigma>) ! unat index), \<sigma>))"

subsection \<open>MaxUnitSize\<close>

text \<open>
  \<^verbatim>\<open>
  size_t Workflow::MaxUnitSize() const noexcept {
    auto max_func = [](size_t curr, std::shared_ptr<Unit> unit) {
      return std::max(curr, unit->OutputCount());
    };
    return std::accumulate(units_.begin(), units_.end(),
                           !units_.empty() ? units_.front()->InputCount() : 0,
                           max_func);
  }
  \<close>
  \<^verbatim>\<open>std::max(a, b)\<close> is \<^verbatim>\<open>(a < b) ? b : a\<close>; \<^verbatim>\<open>std::accumulate\<close> is the loop
  \<^verbatim>\<open>for (; first != last; ++first) init = op(init, *first); return init;\<close>.
\<close>

definition std_max :: "size_t \<Rightarrow> size_t \<Rightarrow> size_t" where
  "std_max a b = (if a < b then b else a)"

fun accumulate :: "'a list \<Rightarrow> 'b \<Rightarrow> ('b \<Rightarrow> 'a \<Rightarrow> 'b) \<Rightarrow> 'b" where
  "accumulate [] init op = init"
| "accumulate (x # xs) init op = accumulate xs (op init x) op"

definition max_func :: "(Unit_ptr \<Rightarrow> Unit) \<Rightarrow> size_t \<Rightarrow> Unit_ptr \<Rightarrow> size_t" where
  "max_func objs cur unit = std_max cur (OutputCount (objs unit))"

definition MaxUnitSize :: "process \<Rightarrow> size_t outcome \<times> process" where
  "MaxUnitSize \<sigma> =
     (Inr (accumulate (units (workflow \<sigma>))
             (case units (workflow \<sigma>) of
                [] \<Rightarrow> 0
              | front # _ \<Rightarrow> InputCount (objects \<sigma> front))
             (max_func (objects \<sigma>))),
      \<sigma>)"

text \<open>
  The algorithm in the spec's words, to compare the code with: start from the input size
  of the first unit (or zero if the sequence is empty), then fold over every unit's output
  size taking the running maximum.
\<close>

definition running_max_spec :: "process \<Rightarrow> size_t" where
  "running_max_spec \<sigma> =
     foldl max
       (if units (workflow \<sigma>) = [] then 0
        else InputCount (objects \<sigma> (hd (units (workflow \<sigma>)))))
       (map (\<lambda>u. OutputCount (objects \<sigma> u)) (units (workflow \<sigma>)))"

subsection \<open>mallocf\<close>

text \<open>
  \<^verbatim>\<open>
  float* Workflow::mallocf(size_t length) {
    void *ptr;
    return posix_memalign(&ptr, 64, length * sizeof(float)) == 0 ?
        static_cast<float*>(ptr) : nullptr;
  }
  \<close>
  \<^verbatim>\<open>posix_memalign\<close> belongs to the C library, not to this repository, so it is a
  parameter of the model: from the alignment, the size in bytes and the heap it gives the
  status it returns, the address it stores through its first argument and the heap it
  leaves. \<^verbatim>\<open>ptr\<close> is read only when the status is 0. The product
  \<^verbatim>\<open>length * sizeof(float)\<close> is computed in \<^verbatim>\<open>size_t\<close>.
\<close>

type_synonym posix_memalign_t =
  "size_t \<Rightarrow> size_t \<Rightarrow> (addr \<Rightarrow> nat option) \<Rightarrow> (int \<times> addr) \<times> (addr \<Rightarrow> nat option)"

definition mallocf :: "posix_memalign_t \<Rightarrow> size_t \<Rightarrow> process \<Rightarrow> addr outcome \<times> process" where
  "mallocf posix_memalign len \<sigma> =
     (case posix_memalign 64 (len * sizeof_float) (heap \<sigma>) of
        ((rc, ptr), h') \<Rightarrow> (Inr (if rc = 0 then ptr else nullptr), \<sigma>\<lparr>heap := h'\<rparr>))"

subsection \<open>Sample inputs\<close>

text \<open>
  A small allocator to run \<^verbatim>\<open>mallocf\<close> with: one arena of 4096 bytes at address 4096,
  handed out whole to the first request that fits. It answers \<^verbatim>\<open>EINVAL\<close> (22) when the
  arena is not aligned as asked and \<^verbatim>\<open>ENOMEM\<close> (12) when the arena is taken or too small;
  on success it records the requested size as the block's usable bytes.
\<close>

definition arena_memalign :: posix_memalign_t where
  "arena_memalign alignment sz h =
     (if alignment = 0 then ((22, 0), h)
      else if 0 < 4096 mod unat alignment then ((22, 0), h)
      else if 4096 < unat sz then ((12, 0), h)
      else (case h 4096 of
              Some _ \<Rightarrow> ((12, 0), h)
            | None \<Rightarrow> ((0, 4096), h(4096 \<mapsto> unat sz))))"

text \<open>
  Three units chained as the spec's example has them: the handles 1, 2, 3 own units with
  (InputCount, OutputCount) = (5, 3), (3, 7), (7, 2). The heap is empty.
\<close>

definition chain_objects :: "Unit_ptr \<Rightarrow> Unit" where
  "chain_objects p =
     (if p = 1 then \<lparr>InputCount = 5, OutputCount = 3\<rparr>
      else if p = 2 then \<lparr>InputCount = 3, OutputCount = 7\<rparr>
      else \<lparr>InputCount = 7, OutputCount = 2\<rparr>)"

definition chain :: process where
  "chain = \<lparr>workflow = \<lparr>units = [1, 2, 3]\<rparr>, objects = chain_objects, heap = Map.empty\<rparr>"

text \<open>The same units with the second and the third swapped.\<close>

definition chain_swapped :: process where
  "chain_swapped = \<lparr>workflow = \<lparr>units = [1, 3, 2]\<rparr>, objects = chain_objects, heap = Map.empty\<rparr>"

text \<open>
  Two units of which the second expects more input than anything before it produces:
  (InputCount, OutputCount) = (1, 1), (10, 1).
\<close>

definition wide_second :: process where
  "wide_second =
     \<lparr>workflow = \<lparr>units = [1, 2]\<rparr>,
      objects = (\<lambda>p. if p = 1 then \<lparr>InputCount = 1, OutputCount = 1\<rparr>
                     else \<lparr>InputCount = 10, OutputCount = 1\<rparr>),
      heap = Map.empty\<rparr>"

text \<open>
  The units of \<open>chain\<close> under other handles, the last two in the other order and with
  other InputCounts: the handles 7, 9, 8 own units with (InputCount, OutputCount) =
  (5, 3), (0, 2), (40, 7).
\<close>

definition chain_rewired :: process where
  "chain_rewired =
     \<lparr>workflow = \<lparr>units = [7, 9, 8]\<rparr>,
      objects = (\<lambda>p. if p = 7 then \<lparr>InputCount = 5, OutputCount = 3\<rparr>
                     else if p = 8 then \<lparr>InputCount = 40, OutputCount = 7\<rparr>
                     else \<lparr>InputCount = 0, OutputCount = 2\<rparr>),
      heap = Map.empty\<rparr>"

section \<open>Properties\<close>

subsection \<open>The fold\<close>

lemma std_max_eq_max: "std_max a b = max a b"
  by (auto simp add: std_max_def max_def)

lemma accumulate_eq_foldl: "accumulate xs init op = foldl op init xs"
  by (induction xs arbitrary: init) simp_all

lemma accumulate_max_func:
  "accumulate us a (max_func objs) = foldl max a (map (\<lambda>u. OutputCount (objs u)) us)"
  by (induction us arbitrary: a) (simp_all add: max_func_def std_max_eq_max)

lemma MaxUnitSize_running_max: "fst (MaxUnitSize \<sigma>) = Inr (running_max_spec \<sigma>)"
  by (cases "units (workflow \<sigma>)")
     (simp_all add: MaxUnitSize_def running_max_spec_def accumulate_max_func)

lemma foldl_max_Max: "foldl max a xs = Max (set (a # xs))" for a :: "'a :: linorder"
proof -
  have "(\<lambda>x s. max s x) = (max :: 'a \<Rightarrow> 'a \<Rightarrow> 'a)"
    by (simp add: fun_eq_iff max.commute)
  then have "foldl max a xs = fold max xs a"
    by (simp add: foldl_conv_fold)
  also have "\<dots> = Max (set (a # xs))"
    by (rule Max.set_eq_fold [symmetric])
  finally show ?thesis .
qed

lemma running_max_spec_Max:
  "units (workflow \<sigma>) = u # us \<Longrightarrow>
   running_max_spec \<sigma> =
     Max (insert (InputCount (objects \<sigma> u))
           (set (map (\<lambda>x. OutputCount (objects \<sigma> x)) (u # us))))"
  by (simp add: running_max_spec_def foldl_max_Max del: foldl_Cons)

text \<open>
  C1. \<^verbatim>\<open>MaxUnitSize()\<close> returns the value of the fold that starts from the first unit's
  InputCount (zero for an empty sequence) and takes the running maximum with every unit's
  OutputCount in order; on a workflow whose units have OutputCounts 3, 7, 2 and whose first
  unit has InputCount 5 it returns 7.
\<close>

theorem MaxUnitSize_is_fold:
  "fst (MaxUnitSize \<sigma>) = Inr (running_max_spec \<sigma>) \<and>
   (map (\<lambda>u. OutputCount (objects \<sigma> u)) (units (workflow \<sigma>)) = [3, 7, 2] \<and>
    InputCount (objects \<sigma> (hd (units (workflow \<sigma>)))) = 5
    \<longrightarrow> fst (MaxUnitSize \<sigma>) = Inr 7)"
proof (intro conjI impI)
  show "fst (MaxUnitSize \<sigma>) = Inr (running_max_spec \<sigma>)"
    by (rule MaxUnitSize_running_max)
next
  assume h: "map (\<lambda>u. OutputCount (objects \<sigma> u)) (units (workflow \<sigma>)) = [3, 7, 2] \<and>
    InputCount (objects \<sigma> (hd (units (workflow \<sigma>)))) = 5"
  then have ne: "units (workflow \<sigma>) \<noteq> []"
    by auto
  have "running_max_spec \<sigma> = foldl max 5 [3, 7, 2]"
    using h ne by (simp add: running_max_spec_def)
  also have "\<dots> = (7 :: size_t)"
    by simp
  finally show "fst (MaxUnitSize \<sigma>) = Inr 7"
    by (simp add: MaxUnitSize_running_max)
qed

theorem MaxUnitSize_is_fold_witness:
  "map (\<lambda>u. OutputCount (objects chain u)) (units (workflow chain)) = [3, 7, 2] \<and>
   InputCount (objects chain (hd (units (workflow chain)))) = 5 \<and>
   fst (MaxUnitSize chain) = Inr 7 \<and>
   fst (MaxUnitSize chain) = Inr (running_max_spec chain)"
proof -
  have h: "map (\<lambda>u. OutputCount (objects chain u)) (units (workflow chain)) = [3, 7, 2] \<and>
    InputCount (objects chain (hd (units (workflow chain)))) = 5"
    by (simp add: chain_def chain_objects_def)
  with MaxUnitSize_is_fold [of chain] show ?thesis
    by blast
qed

subsection \<open>What the maximum covers\<close>

text \<open>
  C2, as claimed: the value returned by \<^verbatim>\<open>MaxUnitSize()\<close> is at least the InputCount and
  the OutputCount of every unit in the sequence. The code reads the InputCount of the first
  unit only, so the claim fails on \<open>wide_second\<close>: the result is 1 and the second
  unit's InputCount is 10.
\<close>

theorem MaxUnitSize_misses_later_input:
  "fst (MaxUnitSize wide_second) = Inr 1 \<and>
   units (workflow wide_second) ! 1 = 2 \<and>
   InputCount (objects wide_second 2) = 10 \<and>
   (1 :: size_t) < 10"
  by (simp add: MaxUnitSize_def wide_second_def max_func_def std_max_def)

text \<open>
  C2, amended: the value returned by \<^verbatim>\<open>MaxUnitSize()\<close> is at least the InputCount of the
  first unit and the OutputCount of every unit in the sequence.
\<close>

theorem MaxUnitSize_covers:
  "fst (MaxUnitSize \<sigma>) = Inr m \<Longrightarrow>
   (units (workflow \<sigma>) \<noteq> [] \<longrightarrow> InputCount (objects \<sigma> (hd (units (workflow \<sigma>)))) \<le> m) \<and>
   (\<forall>u \<in> set (units (workflow \<sigma>)). OutputCount (objects \<sigma> u) \<le> m)"
proof (cases "units (workflow \<sigma>)")
  case Nil
  then show ?thesis by simp
next
  case (Cons u us)
  assume "fst (MaxUnitSize \<sigma>) = Inr m"
  then have m: "m = Max (insert (InputCount (objects \<sigma> u))
      (set (map (\<lambda>x. OutputCount (objects \<sigma> x)) (u # us))))"
    using running_max_spec_Max [OF Cons] by (simp add: MaxUnitSize_running_max)
  have "InputCount (objects \<sigma> u) \<le> m"
    unfolding m by (rule Max_ge) simp_all
  moreover have "OutputCount (objects \<sigma> x) \<le> m" if "x \<in> set (u # us)" for x
    unfolding m using that by (intro Max_ge) auto
  ultimately show ?thesis
    using Cons by simp
qed

theorem MaxUnitSize_covers_witness:
  "fst (MaxUnitSize chain) = Inr 7 \<and>
   units (workflow chain) = [1, 2, 3] \<and>
   InputCount (objects chain 1) \<le> 7 \<and>
   OutputCount (objects chain 1) \<le> 7 \<and>
   OutputCount (objects chain 2) \<le> 7 \<and>
   OutputCount (objects chain 3) \<le> 7"
proof -
  have r: "fst (MaxUnitSize chain) = Inr 7"
    by (simp add: MaxUnitSize_def chain_def chain_objects_def max_func_def std_max_def)
  have u: "units (workflow chain) = [1, 2, 3]"
    by (simp add: chain_def)
  from MaxUnitSize_covers [OF r] show ?thesis
    using r u by simp
qed

subsection \<open>GetUnit\<close>

text \<open>
  C3. For every index \<open>i\<close> below \<^verbatim>\<open>UnitCount()\<close>, \<^verbatim>\<open>GetUnit(i)\<close> succeeds and returns
  the handle stored at position \<open>i\<close> of the unit sequence.
\<close>

theorem GetUnit_in_range:
  "unat i < UnitCount (workflow \<sigma>) \<Longrightarrow> fst (GetUnit i \<sigma>) = Inr (units (workflow \<sigma>) ! unat i)"
  by (simp add: GetUnit_def)

theorem GetUnit_in_range_witness:
  "unat (1 :: size_t) < UnitCount (workflow chain) \<and> fst (GetUnit 1 chain) = Inr 2"
proof -
  have h: "unat (1 :: size_t) < UnitCount (workflow chain)"
    by (simp add: UnitCount_def chain_def)
  from GetUnit_in_range [OF h] h show ?thesis
    by (simp add: chain_def)
qed

text \<open>
  C4. \<^verbatim>\<open>GetUnit(i)\<close> throws exactly when \<open>i\<close> is not below \<^verbatim>\<open>UnitCount()\<close>, and what it
  throws is \<^verbatim>\<open>std::out_of_range\<close>; the exception is the outcome of the call itself (nothing
  in the function catches it or tries again).
\<close>

theorem GetUnit_throws_iff:
  "(fst (GetUnit i \<sigma>) = Inl (out_of_range ''index'')) = (UnitCount (workflow \<sigma>) \<le> unat i) \<and>
   isl (fst (GetUnit i \<sigma>)) = (UnitCount (workflow \<sigma>) \<le> unat i)"
  by (simp add: GetUnit_def)

subsection \<open>MaxUnitSize never throws\<close>

text \<open>
  C5. On a workflow whose unit sequence is empty \<^verbatim>\<open>MaxUnitSize()\<close> returns 0, and on every
  workflow it returns a value: no path of the function throws, and its loop ends with the
  sequence.
\<close>

theorem MaxUnitSize_total:
  "fst (MaxUnitSize (\<sigma>\<lparr>workflow := \<lparr>units = []\<rparr>\<rparr>)) = Inr 0 \<and>
   (\<exists>m. fst (MaxUnitSize \<sigma>) = Inr m)"
  by (simp add: MaxUnitSize_def)

subsection \<open>Frame\<close>

text \<open>
  C6. \<^verbatim>\<open>GetUnit\<close> and \<^verbatim>\<open>MaxUnitSize\<close> have no side effects: the state after the call
  (the unit sequence and with it \<^verbatim>\<open>UnitCount()\<close>, the unit objects, the heap) is the state
  before it, whether \<^verbatim>\<open>GetUnit\<close> returns or throws.
\<close>

theorem accessors_leave_state:
  "snd (GetUnit i \<sigma>) = \<sigma> \<and> snd (MaxUnitSize \<sigma>) = \<sigma> \<and>
   units (workflow (snd (GetUnit i \<sigma>))) = units (workflow \<sigma>) \<and>
   UnitCount (workflow (snd (GetUnit i \<sigma>))) = UnitCount (workflow \<sigma>) \<and>
   units (workflow (snd (MaxUnitSize \<sigma>))) = units (workflow \<sigma>) \<and>
   UnitCount (workflow (snd (MaxUnitSize \<sigma>))) = UnitCount (workflow \<sigma>)"
  by (simp add: GetUnit_def MaxUnitSize_def)

subsection \<open>mallocf\<close>

text \<open>
  C7. When \<^verbatim>\<open>posix_memalign\<close> reports failure (a status other than 0), \<^verbatim>\<open>mallocf\<close>
  returns the null pointer: it returns normally, throws nothing, and whatever address the
  allocator left behind is not passed on.
\<close>

theorem mallocf_failure_is_null:
  "posix_memalign 64 (len * sizeof_float) (heap \<sigma>) = ((rc, p), h') \<Longrightarrow> rc \<noteq> 0 \<Longrightarrow>
   fst (mallocf posix_memalign len \<sigma>) = Inr nullptr"
  by (simp add: mallocf_def)

theorem mallocf_failure_is_null_witness:
  "arena_memalign 64 (2000 * sizeof_float) (heap chain) = ((12, 0), heap chain) \<and>
   (12 :: int) \<noteq> 0 \<and>
   fst (mallocf arena_memalign 2000 chain) = Inr nullptr"
proof -
  have h: "arena_memalign 64 (2000 * sizeof_float) (heap chain) = ((12, 0), heap chain)"
    by (simp add: arena_memalign_def sizeof_float_def chain_def)
  have n: "(12 :: int) \<noteq> 0"
    by simp
  from mallocf_failure_is_null [where posix_memalign = arena_memalign and len = 2000, OF h n] h
  show ?thesis
    by simp
qed

text \<open>The size \<^verbatim>\<open>mallocf\<close> asks for is the product modulo \<open>2 ^ 64\<close>.\<close>

lemma mallocf_request_bytes: "unat (len * sizeof_float) = (unat len * 4) mod 2 ^ 64"
  by (simp add: sizeof_float_def unat_word_ariths)

lemma mallocf_request_exact:
  "unat len < 2 ^ 62 \<Longrightarrow> unat (len * sizeof_float) = unat len * 4"
  by (simp add: mallocf_request_bytes)

lemma mallocf_success:
  "posix_memalign 64 (len * sizeof_float) (heap \<sigma>) = ((0, p), h') \<Longrightarrow>
   mallocf posix_memalign len \<sigma> = (Inr p, \<sigma>\<lparr>heap := h'\<rparr>)"
  by (simp add: mallocf_def)

text \<open>
  C8. When \<^verbatim>\<open>mallocf(n)\<close> succeeds, the address is a multiple of 64 and the buffer holds
  at least \<open>n * sizeof(float)\<close> bytes. The code multiplies in \<^verbatim>\<open>size_t\<close> and does not
  check the product: for \<open>n = 2 ^ 62 + 1\<close> it asks the allocator for 4 bytes, exactly as
  \<^verbatim>\<open>mallocf(1)\<close> does, and on the arena it succeeds with a block of 4 usable bytes.
\<close>

theorem mallocf_size_wraps:
  "fst (mallocf arena_memalign 0x4000000000000001 chain) = Inr 4096 \<and>
   heap (snd (mallocf arena_memalign 0x4000000000000001 chain)) 4096 = Some 4 \<and>
   4 < unat (0x4000000000000001 :: size_t) * unat sizeof_float \<and>
   mallocf posix_memalign 0x4000000000000001 \<sigma> = mallocf posix_memalign 1 \<sigma>"
proof -
  have wrap: "(0x4000000000000001 :: size_t) * sizeof_float = 1 * sizeof_float"
    by (simp add: sizeof_float_def)
  have same: "mallocf pm 0x4000000000000001 s = mallocf pm 1 s" for pm s
    unfolding mallocf_def wrap ..
  have "mallocf arena_memalign 1 chain = (Inr 4096, chain\<lparr>heap := [4096 \<mapsto> 4]\<rparr>)"
    by (simp add: mallocf_def arena_memalign_def sizeof_float_def chain_def)
  moreover have "4 < unat (0x4000000000000001 :: size_t) * unat sizeof_float"
    by (simp add: sizeof_float_def)
  ultimately show ?thesis
    by (simp add: same)
qed

subsection \<open>The count of units\<close>

text \<open>
  C9. \<^verbatim>\<open>UnitCount()\<close> is the length of the unit sequence, which may be empty, and it still
  is after \<^verbatim>\<open>GetUnit\<close>, \<^verbatim>\<open>MaxUnitSize\<close> and \<^verbatim>\<open>mallocf\<close>, none of which changes the
  workflow.
\<close>

theorem UnitCount_is_length:
  "UnitCount (workflow \<sigma>) = length (units (workflow \<sigma>)) \<and>
   UnitCount \<lparr>units = []\<rparr> = 0 \<and>
   workflow (snd (GetUnit i \<sigma>)) = workflow \<sigma> \<and>
   UnitCount (workflow (snd (GetUnit i \<sigma>))) = length (units (workflow (snd (GetUnit i \<sigma>)))) \<and>
   workflow (snd (MaxUnitSize \<sigma>)) = workflow \<sigma> \<and>
   UnitCount (workflow (snd (MaxUnitSize \<sigma>))) = length (units (workflow (snd (MaxUnitSize \<sigma>)))) \<and>
   workflow (snd (mallocf posix_memalign n \<sigma>)) = workflow \<sigma> \<and>
   UnitCount (workflow (snd (mallocf posix_memalign n \<sigma>))) =
     length (units (workflow (snd (mallocf posix_memalign n \<sigma>))))"
  by (simp add: UnitCount_def GetUnit_def MaxUnitSize_def mallocf_def split: prod.splits)

subsection \<open>What the maximum depends on\<close>

lemma MaxUnitSize_determined:
  assumes "units (workflow \<sigma>) \<noteq> []" and "units (workflow \<sigma>') \<noteq> []"
    and "InputCount (objects \<sigma> (hd (units (workflow \<sigma>)))) =
         InputCount (objects \<sigma>' (hd (units (workflow \<sigma>'))))"
    and "mset (map (\<lambda>x. OutputCount (objects \<sigma> x)) (units (workflow \<sigma>))) =
         mset (map (\<lambda>x. OutputCount (objects \<sigma>' x)) (units (workflow \<sigma>')))"
  shows "fst (MaxUnitSize \<sigma>') = fst (MaxUnitSize \<sigma>)"
proof -
  obtain u us where c: "units (workflow \<sigma>) = u # us"
    using assms(1) by (cases "units (workflow \<sigma>)") auto
  obtain u' us' where c': "units (workflow \<sigma>') = u' # us'"
    using assms(2) by (cases "units (workflow \<sigma>')") auto
  have "set (map (\<lambda>x. OutputCount (objects \<sigma> x)) (u # us)) =
        set (map (\<lambda>x. OutputCount (objects \<sigma>' x)) (u' # us'))"
    using assms(4) unfolding c c' by (rule mset_eq_setD)
  moreover have "InputCount (objects \<sigma> u) = InputCount (objects \<sigma>' u')"
    using assms(3) by (simp add: c c')
  ultimately have "running_max_spec \<sigma>' = running_max_spec \<sigma>"
    by (simp only: running_max_spec_Max [OF c] running_max_spec_Max [OF c'])
  then show ?thesis
    by (simp add: MaxUnitSize_running_max)
qed

text \<open>
  C10. \<^verbatim>\<open>MaxUnitSize()\<close> does not change when the units after the first are permuted, and
  it is determined by the first unit's InputCount and the multiset of all OutputCounts: the
  InputCounts of the later units play no part.
\<close>

theorem MaxUnitSize_permutation:
  "(units (workflow \<sigma>) = u # us \<and> units (workflow \<sigma>') = u # us' \<and> mset us' = mset us \<and>
    objects \<sigma>' = objects \<sigma>
    \<longrightarrow> fst (MaxUnitSize \<sigma>') = fst (MaxUnitSize \<sigma>)) \<and>
   (units (workflow \<sigma>) \<noteq> [] \<and> units (workflow \<sigma>') \<noteq> [] \<and>
    InputCount (objects \<sigma> (hd (units (workflow \<sigma>)))) =
      InputCount (objects \<sigma>' (hd (units (workflow \<sigma>')))) \<and>
    mset (map (\<lambda>x. OutputCount (objects \<sigma> x)) (units (workflow \<sigma>))) =
      mset (map (\<lambda>x. OutputCount (objects \<sigma>' x)) (units (workflow \<sigma>')))
    \<longrightarrow> fst (MaxUnitSize \<sigma>') = fst (MaxUnitSize \<sigma>))"
proof (intro conjI impI)
  assume h: "units (workflow \<sigma>) = u # us \<and> units (workflow \<sigma>') = u # us' \<and>
    mset us' = mset us \<and> objects \<sigma>' = objects \<sigma>"
  then have "mset (map (\<lambda>x. OutputCount (objects \<sigma> x)) us') =
      mset (map (\<lambda>x. OutputCount (objects \<sigma> x)) us)"
    by (metis mset_map)
  with h show "fst (MaxUnitSize \<sigma>') = fst (MaxUnitSize \<sigma>)"
    by (intro MaxUnitSize_determined) simp_all
next
  assume "units (workflow \<sigma>) \<noteq> [] \<and> units (workflow \<sigma>') \<noteq> [] \<and>
    InputCount (objects \<sigma> (hd (units (workflow \<sigma>)))) =
      InputCount (objects \<sigma>' (hd (units (workflow \<sigma>')))) \<and>
    mset (map (\<lambda>x. OutputCount (objects \<sigma> x)) (units (workflow \<sigma>))) =
      mset (map (\<lambda>x. OutputCount (objects \<sigma>' x)) (units (workflow \<sigma>')))"
  then show "fst (MaxUnitSize \<sigma>') = fst (MaxUnitSize \<sigma>)"
    by (intro MaxUnitSize_determined) simp_all
qed

theorem MaxUnitSize_permutation_witness:
  "units (workflow chain) = 1 # [2, 3] \<and> units (workflow chain_swapped) = 1 # [3, 2] \<and>
   mset [3, 2] = mset [2, 3 :: Unit_ptr] \<and> objects chain_swapped = objects chain \<and>
   fst (MaxUnitSize chain_swapped) = fst (MaxUnitSize chain) \<and>
   units (workflow chain) \<noteq> [] \<and> units (workflow chain_rewired) \<noteq> [] \<and>
   InputCount (objects chain (hd (units (workflow chain)))) =
     InputCount (objects chain_rewired (hd (units (workflow chain_rewired)))) \<and>
   mset (map (\<lambda>x. OutputCount (objects chain x)) (units (workflow chain))) =
     mset (map (\<lambda>x. OutputCount (objects chain_rewired x)) (units (workflow chain_rewired))) \<and>
   fst (MaxUnitSize chain_rewired) = fst (MaxUnitSize chain) \<and>
   fst (MaxUnitSize chain) = Inr 7"
proof -
  have a: "units (workflow chain) = 1 # [2, 3] \<and> units (workflow chain_swapped) = 1 # [3, 2] \<and>
      mset [3, 2] = mset [2, 3 :: Unit_ptr] \<and> objects chain_swapped = objects chain"
    by (simp add: chain_def chain_swapped_def)
  have b: "units (workflow chain) \<noteq> [] \<and> units (workflow chain_rewired) \<noteq> [] \<and>
      InputCount (objects chain (hd (units (workflow chain)))) =
        InputCount (objects chain_rewired (hd (units (workflow chain_rewired)))) \<and>
      mset (map (\<lambda>x. OutputCount (objects chain x)) (units (workflow chain))) =
        mset (map (\<lambda>x. OutputCount (objects chain_rewired x)) (units (workflow chain_rewired)))"
    by (simp add: chain_def chain_rewired_def chain_objects_def)
  have c: "fst (MaxUnitSize chain) = Inr 7"
    by (simp add: MaxUnitSize_def chain_def chain_objects_def max_func_def std_max_def)
  from MaxUnitSize_permutation [of chain 1 "[2, 3]" chain_swapped "[3, 2]"] a
  have "fst (MaxUnitSize chain_swapped) = fst (MaxUnitSize chain)"
    by blast
  moreover from MaxUnitSize_permutation [of chain 1 "[2, 3]" chain_rewired "[3, 2]"] b
  have "fst (MaxUnitSize chain_rewired) = fst (MaxUnitSize chain)"
    by blast
  ultimately show ?thesis
    using a b c by blast
qed

end
